theory Spec2Isabelle
  imports Main "HOL-Library.Word" "HOL-Library.Signed_Division"
begin

section \<open>The persistent-volume watcher of the VPC block CSI driver\<close>

text \<open>
  A shallow embedding of \<^verbatim>\<open>pkg/watcher/pv_watcher.go\<close>: the filter of the
  informer, the conversion of a persistent volume into the provider's volume
  descriptor, the tags of a volume, and the update task started for every update event.

  Go strings are byte strings, here \<^typ>\<open>string\<close>. A Go map read at a missing key (or a
  nil map) gives the zero value, here the empty string. A nil pointer is \<open>None\<close>, and a
  field read through a nil pointer panics: every function that can panic returns a sum,
  \<open>Inl\<close> carrying the panic. Logging is left out: it has no effect on what the
  functions return, nor on the provider and the event recorder.
\<close>

subsection \<open>Constants\<close>

definition ReclaimPolicyTag :: string where "ReclaimPolicyTag = ''reclaimpolicy:''"
definition NameSpaceTag :: string where "NameSpaceTag = ''namespace:''"
definition StorageClassTag :: string where "StorageClassTag = ''storageclass:''"
definition PVCNameTag :: string where "PVCNameTag = ''pvc:''"
definition PVNameTag :: string where "PVNameTag = ''pv:''"
definition VolumeCRN :: string where "VolumeCRN = ''volumeCRN''"
definition ProvisionerTag :: string where "ProvisionerTag = ''provisioner:''"
definition VolumeStatus :: string where "VolumeStatus = ''status''"
definition VolumeStatusCreated :: string where "VolumeStatusCreated = ''created''"
definition VolumeStatusDeleted :: string where "VolumeStatusDeleted = ''deleted''"
definition VolumeUpdateEventReason :: string where
  "VolumeUpdateEventReason = ''VolumeMetaDataSaved''"
definition VolumeUpdateEventSuccess :: string where "VolumeUpdateEventSuccess = ''Success''"
definition ClusterIDLabel :: string where "ClusterIDLabel = ''clusterID''"
definition IOPSLabel :: string where "IOPSLabel = ''iops''"

text \<open>\<^verbatim>\<open>GiB = 1024 * 1024 * 1024\<close>, an untyped constant.\<close>

definition GiB :: int where "GiB = 1024 * 1024 * 1024"

text \<open>Constants of \<^verbatim>\<open>k8s.io/api/core/v1\<close> that the watcher uses.\<close>

definition ResourceStorage :: string where "ResourceStorage = ''storage''"
definition VolumeBound :: string where "VolumeBound = ''Bound''"
definition VolumeReleased :: string where "VolumeReleased = ''Released''"
definition EventTypeNormal :: string where "EventTypeNormal = ''Normal''"
definition EventTypeWarning :: string where "EventTypeWarning = ''Warning''"

subsection \<open>The data model\<close>

text \<open>
  \<^verbatim>\<open>v1.PersistentVolumePhase\<close> and \<^verbatim>\<open>v1.PersistentVolumeReclaimPolicy\<close> are string
  types: any string is a value, and the zero value is the empty string.
  A \<^verbatim>\<open>resource.Quantity\<close> is read only through \<^verbatim>\<open>Value()\<close>, an \<^verbatim>\<open>int64\<close>; the model
  keeps that value. Go's \<^verbatim>\<open>int\<close> is taken to be 64 bits wide.
\<close>

type_synonym PersistentVolumePhase = string
type_synonym int64 = "64 word"
type_synonym Quantity = int64

record CSIPersistentVolumeSource =
  Driver :: string
  VolumeHandle :: string
  VolumeAttributes :: "string \<rightharpoonup> string"

record ObjectReference =
  Namespace :: string
  Name :: string

record PersistentVolumeSpec =
  Capacity :: "string \<rightharpoonup> Quantity"
  CSI :: "CSIPersistentVolumeSource option"
  PersistentVolumeReclaimPolicy :: string
  StorageClassName :: string
  ClaimRef :: "ObjectReference option"

record PersistentVolume =
  ObjectMeta_Name :: string
  Spec :: PersistentVolumeSpec
  Status_Phase :: PersistentVolumePhase

text \<open>
  The fields of \<^verbatim>\<open>provider.Volume\<close> that the watcher writes; every other field keeps
  its zero value. A nil slice is the empty list, a nil pointer is \<open>None\<close>.
\<close>

record Volume =
  VolumeID :: string
  Provider :: string
  VolumeType :: string
  CRN :: string
  Attributes :: "string \<rightharpoonup> string"
  Tags :: "string list"
  Volume_Capacity :: "int64 option"
  Iops :: "string option"

text \<open>
  The watcher: its provisioner name and, of its configuration, the provider type
  \<^verbatim>\<open>config.VPC.VPCBlockProviderType\<close>; the configuration and its \<^verbatim>\<open>VPC\<close> part are
  taken to be there.
\<close>

record PVWatcher =
  provisionerName :: string
  VPCBlockProviderType :: string

text \<open>
  An \<^verbatim>\<open>interface{}\<close> handed over by the informer: nil, a pointer to a persistent volume
  (itself possibly nil), or a value of another type.
\<close>

datatype obj = NilObj | PVObj "PersistentVolume option" | OtherObj

text \<open>The type assertion \<^verbatim>\<open>pv, _ := obj.(*v1.PersistentVolume)\<close>.\<close>

fun asPV :: "obj \<Rightarrow> PersistentVolume option" where
  "asPV (PVObj p) = p"
| "asPV NilObj = None"
| "asPV OtherObj = None"

datatype panic = NilPointerDereference

text \<open>Reading a map of strings: the zero value at a missing key.\<close>

definition index :: "(string \<rightharpoonup> string) \<Rightarrow> string \<Rightarrow> string" where
  "index m k = (case m k of Some v \<Rightarrow> v | None \<Rightarrow> [])"

text \<open>\<^verbatim>\<open>pv.Spec.Capacity[v1.ResourceStorage]\<close> followed by \<^verbatim>\<open>Value()\<close>.\<close>

definition storageValue :: "PersistentVolume \<Rightarrow> int64" where
  "storageValue pv = (case Capacity (Spec pv) ResourceStorage of Some q \<Rightarrow> q | None \<Rightarrow> 0)"

subsection \<open>BytesToGiB\<close>

text \<open>
  \<^verbatim>\<open>return int(volumeSizeBytes / GiB)\<close>: Go's division of signed integers truncates
  towards zero, which is \<open>sdiv\<close> on \<^typ>\<open>int\<close>.
\<close>

definition BytesToGiB :: "int64 \<Rightarrow> int64" where
  "BytesToGiB volumeSizeBytes = word_of_int (sint volumeSizeBytes sdiv GiB)"

subsection \<open>filter\<close>

text \<open>The method \<^verbatim>\<open>filter\<close> of the watcher (\<open>filter\<close> alone is the function on lists).\<close>

definition filter_pvw :: "PVWatcher \<Rightarrow> obj \<Rightarrow> bool" where
  "filter_pvw pvw ob =
     (case asPV ob of
        None \<Rightarrow> False
      | Some pv \<Rightarrow>
          (case CSI (Spec pv) of
             None \<Rightarrow> False
           | Some csi \<Rightarrow> Driver csi = provisionerName pvw))"

subsection \<open>The string functions of Go's library that the watcher calls\<close>

text \<open>
  \<^verbatim>\<open>strings.TrimSpace\<close> removes the leading and the trailing white space, as Unicode
  defines it, rune by rune. \<open>spaceRunes\<close> lists the UTF-8 encodings of the runes for
  which \<^verbatim>\<open>unicode.IsSpace\<close> holds: the six of ASCII, U+0085, U+00A0, U+1680, U+2000
  to U+200A, U+2028, U+2029, U+202F, U+205F and U+3000.
\<close>

definition spaceRunes :: "string list" where
  "spaceRunes =
     [[CHR 0x09], [CHR 0x0A], [CHR 0x0B], [CHR 0x0C], [CHR 0x0D], [CHR 0x20],
      [CHR 0xC2, CHR 0x85], [CHR 0xC2, CHR 0xA0],
      [CHR 0xE1, CHR 0x9A, CHR 0x80],
      [CHR 0xE2, CHR 0x80, CHR 0x80], [CHR 0xE2, CHR 0x80, CHR 0x81],
      [CHR 0xE2, CHR 0x80, CHR 0x82], [CHR 0xE2, CHR 0x80, CHR 0x83],
      [CHR 0xE2, CHR 0x80, CHR 0x84], [CHR 0xE2, CHR 0x80, CHR 0x85],
      [CHR 0xE2, CHR 0x80, CHR 0x86], [CHR 0xE2, CHR 0x80, CHR 0x87],
      [CHR 0xE2, CHR 0x80, CHR 0x88], [CHR 0xE2, CHR 0x80, CHR 0x89],
      [CHR 0xE2, CHR 0x80, CHR 0x8A],
      [CHR 0xE2, CHR 0x80, CHR 0xA8], [CHR 0xE2, CHR 0x80, CHR 0xA9],
      [CHR 0xE2, CHR 0x80, CHR 0xAF], [CHR 0xE2, CHR 0x81, CHR 0x9F],
      [CHR 0xE3, CHR 0x80, CHR 0x80]]"

text \<open>The width in bytes of the white-space rune that \<open>s\<close> starts with, 0 if none.\<close>

definition leadingSpace :: "string list \<Rightarrow> string \<Rightarrow> nat" where
  "leadingSpace runes s =
     (case find (\<lambda>r. take (length r) s = r) runes of
        Some r \<Rightarrow> length r
      | None \<Rightarrow> 0)"

text \<open>
  Dropping white-space runes from the front; the number counts the bytes of the current
  rune that are still to be dropped.
\<close>

fun dropSpaces :: "string list \<Rightarrow> nat \<Rightarrow> string \<Rightarrow> string" where
  "dropSpaces runes n [] = []"
| "dropSpaces runes (Suc n) (c # cs) = dropSpaces runes n cs"
| "dropSpaces runes 0 (c # cs) =
     (case leadingSpace runes (c # cs) of
        0 \<Rightarrow> c # cs
      | Suc w \<Rightarrow> dropSpaces runes w cs)"

text \<open>The trailing runes are decoded backwards: the same on the reversed string.\<close>

definition TrimSpace :: "string \<Rightarrow> string" where
  "TrimSpace s =
     rev (dropSpaces (map rev spaceRunes) 0 (rev (dropSpaces spaceRunes 0 s)))"

text \<open>
  \<^verbatim>\<open>strings.Split(s, sep)\<close> for a separator of one byte: the pieces between the
  separators, one more than there are separators.
\<close>

fun Split :: "string \<Rightarrow> char \<Rightarrow> string list" where
  "Split [] sep = [[]]"
| "Split (c # cs) sep =
     (if c = sep then [] # Split cs sep
      else (case Split cs sep of
              p # ps \<Rightarrow> (c # p) # ps
            | [] \<Rightarrow> [[c]]))"

text \<open>
  \<^verbatim>\<open>strings.ToLower\<close> on ASCII letters; the watcher applies it to the constant
  \<open>ClusterIDLabel\<close> only.
\<close>

definition ToLower :: "string \<Rightarrow> string" where
  "ToLower s =
     map (\<lambda>c. if 65 \<le> (of_char c :: nat) \<and> (of_char c :: nat) \<le> 90
               then char_of ((of_char c :: nat) + 32) else c) s"

subsection \<open>getTags\<close>

text \<open>
  \<open>pv\<close> is the pointer handed over. Reading \<^verbatim>\<open>pv.Spec.CSI.VolumeAttributes\<close> panics on
  a nil \<open>pv\<close> or a nil \<open>CSI\<close>, and reading \<^verbatim>\<open>pv.Spec.ClaimRef.Namespace\<close> panics on a
  nil \<open>ClaimRef\<close>.
\<close>

definition getTags ::
  "PVWatcher \<Rightarrow> PersistentVolume option \<Rightarrow> panic + (string \<times> string list)" where
  "getTags pvw pvp =
     (case pvp of
        None \<Rightarrow> Inl NilPointerDereference
      | Some pv \<Rightarrow>
     (case CSI (Spec pv) of
        None \<Rightarrow> Inl NilPointerDereference
      | Some csi \<Rightarrow>
          (let volAttributes = VolumeAttributes csi;
               tagstr = TrimSpace (index volAttributes ''tags'');
               tags = (if length tagstr > 0 then Split tagstr (CHR '','') else []);
               tags = tags @ [ClusterIDLabel @ '':'' @ index volAttributes ClusterIDLabel];
               tags = tags @ [ReclaimPolicyTag @ PersistentVolumeReclaimPolicy (Spec pv)];
               tags = tags @ [StorageClassTag @ StorageClassName (Spec pv)]
           in (case ClaimRef (Spec pv) of
                 None \<Rightarrow> Inl NilPointerDereference
               | Some claimRef \<Rightarrow>
                   (let tags = tags @ [NameSpaceTag @ Namespace claimRef];
                        tags = tags @ [PVCNameTag @ Name claimRef];
                        tags = tags @ [PVNameTag @ ObjectMeta_Name pv];
                        tags = tags @ [ProvisionerTag @ provisionerName pvw]
                    in Inr (index volAttributes VolumeCRN, tags))))))"

subsection \<open>getVolumeFromPV\<close>

text \<open>
  \<open>volumeTypeMap\<close> is the package variable \<^verbatim>\<open>VolumeTypeMap\<close>. After \<open>getTags\<close> has
  returned, \<open>pv\<close> and its \<open>CSI\<close> are known not to be nil.
\<close>

definition getVolumeFromPV ::
  "PVWatcher \<Rightarrow> (string \<rightharpoonup> string) \<Rightarrow> PersistentVolume option \<Rightarrow> panic + Volume" where
  "getVolumeFromPV pvw volumeTypeMap pvp =
     (case getTags pvw pvp of
        Inl p \<Rightarrow> Inl p
      | Inr (crn, tags) \<Rightarrow>
     (case pvp of
        None \<Rightarrow> Inl NilPointerDereference
      | Some pv \<Rightarrow>
     (case CSI (Spec pv) of
        None \<Rightarrow> Inl NilPointerDereference
      | Some csi \<Rightarrow>
          (let volume = \<lparr>VolumeID = VolumeHandle csi,
                         Provider = VPCBlockProviderType pvw,
                         VolumeType = index volumeTypeMap (Driver csi),
                         CRN = [],
                         Attributes = Map.empty,
                         Tags = [],
                         Volume_Capacity = None,
                         Iops = None\<rparr>;
               volume = volume\<lparr>CRN := crn\<rparr>;
               clusterID = index (VolumeAttributes csi) ClusterIDLabel;
               volume = volume\<lparr>Attributes := [ToLower ClusterIDLabel \<mapsto> clusterID]\<rparr>
           in if Status_Phase pv = VolumeReleased
              then Inr (volume\<lparr>Attributes :=
                          (Attributes volume)(VolumeStatus \<mapsto> VolumeStatusDeleted)\<rparr>)
              else
                (let volume = volume\<lparr>Tags := tags\<rparr>;
                     capacityGiB = BytesToGiB (storageValue pv);
                     volume = volume\<lparr>Volume_Capacity := Some capacityGiB\<rparr>;
                     iops = index (VolumeAttributes csi) IOPSLabel;
                     volume = volume\<lparr>Iops := Some iops\<rparr>
                 in Inr (volume\<lparr>Attributes :=
                           (Attributes volume)(VolumeStatus \<mapsto> VolumeStatusCreated)\<rparr>))))))"

subsection \<open>updateVolume\<close>

text \<open>
  The provider session that \<^verbatim>\<open>GetProviderSession\<close> returns: nil (\<open>None\<close>), a session of
  another type, or an \<^verbatim>\<open>IksVpcSession\<close>. The latter is given by the answers of its two
  calls: \<^verbatim>\<open>UpdateVolume\<close> of the session itself and \<^verbatim>\<open>UpdateVolume\<close> of its
  \<^verbatim>\<open>VPCSession\<close>, each the text of the error returned or \<open>None\<close> for a nil error.
  The calls are taken to return and to leave the descriptor as it is.
\<close>

datatype session =
  IksVpcSession "Volume \<Rightarrow> string option" "Volume \<Rightarrow> string option"
| OtherSession

text \<open>
  What a task does to the outside, in order: asking for the session, the two provider
  calls, and the events recorded on the persistent volume (the object, the event type,
  the reason and the message).
\<close>

datatype action =
  GetProviderSession
| IksUpdateVolume Volume
| VpcUpdateVolume Volume
| RecorderEvent "PersistentVolume option" string string string

text \<open>
  How a task ends: at the return of the skip, at the return taken for a session of
  another type, in the deferred function that recovers from a panic, or at its last line.
\<close>

datatype ending = Skipped | SessionTypeFailure | Recovered | Exited

text \<open>
  The first part of the task, up to the call of \<^verbatim>\<open>GetProviderSession\<close>: it panics,
  or returns to skip (\<open>None\<close>), or goes on with the values of \<^verbatim>\<open>oldStatus\<close> and
  \<^verbatim>\<open>newStatus\<close>. Both are declared without a value and assigned only inside
  \<^verbatim>\<open>if oldobj != nil\<close>. An \<^verbatim>\<open>oldobj\<close> holding a nil pointer or a value of another type
  is not nil.
\<close>

definition statusChange ::
  "obj \<Rightarrow> obj \<Rightarrow> panic + (PersistentVolumePhase \<times> PersistentVolumePhase) option" where
  "statusChange oldobj ob =
     (let newpv = asPV ob in
      if oldobj \<noteq> NilObj then
        (case asPV oldobj of
           None \<Rightarrow> Inl NilPointerDereference
         | Some oldpv \<Rightarrow>
        (let oldCapacity = storageValue oldpv in
         case newpv of
           None \<Rightarrow> Inl NilPointerDereference
         | Some newpv \<Rightarrow>
        (let capacity = storageValue newpv in
         case CSI (Spec newpv) of
           None \<Rightarrow> Inl NilPointerDereference
         | Some newcsi \<Rightarrow>
        (let iops = index (VolumeAttributes newcsi) IOPSLabel in
         case CSI (Spec oldpv) of
           None \<Rightarrow> Inl NilPointerDereference
         | Some oldcsi \<Rightarrow>
        (let oldiops = index (VolumeAttributes oldcsi) IOPSLabel;
             newStatus = Status_Phase newpv;
             oldStatus = Status_Phase oldpv
         in if newStatus = oldStatus \<and> oldCapacity = capacity \<and> oldiops = iops
            then Inr None
            else Inr (Some (oldStatus, newStatus)))))))
      else Inr (Some ([], [])))"

text \<open>
  The task that \<^verbatim>\<open>updateVolume\<close> starts. \<open>provided\<close> is what \<^verbatim>\<open>GetProviderSession\<close>
  returns. The result is how the task ends and what it has done until then; a panic is
  recovered by the deferred function, and what was done before it stays done.
\<close>

definition updateVolume ::
  "PVWatcher \<Rightarrow> (string \<rightharpoonup> string) \<Rightarrow> session option \<Rightarrow> obj \<Rightarrow> obj
     \<Rightarrow> ending \<times> action list" where
  "updateVolume pvw volumeTypeMap provided oldobj ob =
     (let newpv = asPV ob in
      case statusChange oldobj ob of
        Inl p \<Rightarrow> (Recovered, [])
      | Inr None \<Rightarrow> (Skipped, [])
      | Inr (Some (oldStatus, newStatus)) \<Rightarrow>
     (case provided of
        None \<Rightarrow> (Exited, [GetProviderSession])
      | Some OtherSession \<Rightarrow> (SessionTypeFailure, [GetProviderSession])
      | Some (IksVpcSession iksUpdateVolume vpcUpdateVolume) \<Rightarrow>
     (case getVolumeFromPV pvw volumeTypeMap newpv of
        Inl p \<Rightarrow> (Recovered, [GetProviderSession])
      | Inr volume \<Rightarrow>
          (let done = [GetProviderSession, IksUpdateVolume volume];
               done = (case iksUpdateVolume volume of
                         Some err \<Rightarrow>
                           done @ [RecorderEvent newpv EventTypeWarning
                                     VolumeUpdateEventReason err]
                       | None \<Rightarrow> done)
           in if newStatus \<noteq> oldStatus \<and> newStatus = VolumeBound
              then
                (let done = done @ [VpcUpdateVolume volume] in
                 case vpcUpdateVolume volume of
                   Some err \<Rightarrow>
                     (Exited, done @ [RecorderEvent newpv EventTypeWarning
                                        VolumeUpdateEventReason err])
                 | None \<Rightarrow>
                     (Exited, done @ [RecorderEvent newpv EventTypeNormal
                                        VolumeUpdateEventReason VolumeUpdateEventSuccess]))
              else (Exited, done)))))"

text \<open>The volumes handed to the two provider calls, in the order of the calls.\<close>

fun metadataCalls :: "action list \<Rightarrow> Volume list" where
  "metadataCalls [] = []"
| "metadataCalls (IksUpdateVolume volume # rest) = volume # metadataCalls rest"
| "metadataCalls (a # rest) = metadataCalls rest"

fun tagSyncCalls :: "action list \<Rightarrow> Volume list" where
  "tagSyncCalls [] = []"
| "tagSyncCalls (VpcUpdateVolume volume # rest) = volume # tagSyncCalls rest"
| "tagSyncCalls (a # rest) = tagSyncCalls rest"

subsection \<open>Sample inputs\<close>

text \<open>
  A watcher, a persistent volume of that watcher's driver with a claim, 10 GiB of storage
  and the given user tags and phase, and provider sessions that answer every call with
  the given results.
\<close>

definition watcher0 :: PVWatcher where
  "watcher0 = \<lparr>provisionerName = ''vpc.block.csi.ibm.io'', VPCBlockProviderType = ''g2''\<rparr>"

definition csi0 :: "string \<Rightarrow> CSIPersistentVolumeSource" where
  "csi0 usertags =
     \<lparr>Driver = ''vpc.block.csi.ibm.io'', VolumeHandle = ''r006-1'',
      VolumeAttributes = [''tags'' \<mapsto> usertags, ''clusterID'' \<mapsto> ''c1'',
                          ''iops'' \<mapsto> ''3000'', ''volumeCRN'' \<mapsto> ''crn:1'']\<rparr>"

definition claim0 :: ObjectReference where
  "claim0 = \<lparr>Namespace = ''default'', Name = ''data''\<rparr>"

definition pv0 :: "string \<Rightarrow> PersistentVolumePhase \<Rightarrow> PersistentVolume" where
  "pv0 usertags phase =
     \<lparr>ObjectMeta_Name = ''pvc-123'',
      Spec = \<lparr>Capacity = [''storage'' \<mapsto> 10737418240],
              CSI = Some (csi0 usertags),
              PersistentVolumeReclaimPolicy = ''Delete'',
              StorageClassName = ''gold'',
              ClaimRef = Some claim0\<rparr>,
      Status_Phase = phase\<rparr>"

definition session0 :: "string option \<Rightarrow> string option \<Rightarrow> session" where
  "session0 iksResult vpcResult = IksVpcSession (\<lambda>volume. iksResult) (\<lambda>volume. vpcResult)"

section \<open>Properties\<close>

lemmas label_defs =
  ReclaimPolicyTag_def NameSpaceTag_def StorageClassTag_def PVCNameTag_def PVNameTag_def
  VolumeCRN_def ProvisionerTag_def VolumeStatus_def VolumeStatusCreated_def
  VolumeStatusDeleted_def VolumeUpdateEventReason_def VolumeUpdateEventSuccess_def
  ClusterIDLabel_def IOPSLabel_def ResourceStorage_def VolumeBound_def VolumeReleased_def
  EventTypeNormal_def EventTypeWarning_def

subsection \<open>BytesToGiB\<close>

lemma sdiv_GiB_eq: "k sdiv GiB = sgn k * (\<bar>k\<bar> div 2 ^ 30)"
  by (simp add: signed_divide_int_def GiB_def)

lemma sdiv_GiB_bounds:
  fixes k :: int
  assumes "- (2 ^ 63) \<le> k" "k < 2 ^ 63"
  shows "- (2 ^ 63) \<le> k sdiv GiB" "k sdiv GiB < 2 ^ 63"
proof -
  have a: "\<bar>k\<bar> \<le> 2 ^ 63" using assms by simp
  have "\<bar>k\<bar> div 2 ^ 30 \<le> 2 ^ 63 div (2 ^ 30 :: int)"
    using a by (rule zdiv_mono1) simp
  then have b: "\<bar>k\<bar> div 2 ^ 30 \<le> 2 ^ 33" by simp
  have c: "0 \<le> \<bar>k\<bar> div 2 ^ 30" by (simp add: pos_imp_zdiv_nonneg_iff)
  show "- (2 ^ 63) \<le> k sdiv GiB" "k sdiv GiB < 2 ^ 63"
    using b c by (auto simp: sdiv_GiB_eq sgn_if)
qed

text \<open>The quotient always fits: the conversion to \<^verbatim>\<open>int\<close> loses nothing.\<close>

lemma sint_BytesToGiB: "sint (BytesToGiB x) = sint x sdiv GiB"
proof -
  have "- (2 ^ 63) \<le> sint x" "sint x < 2 ^ 63"
    using sint_ge [of x] sint_lt [of x] by simp_all
  then have "- (2 ^ 63) \<le> sint x sdiv GiB" "sint x sdiv GiB < 2 ^ 63"
    by (rule sdiv_GiB_bounds)+
  then show ?thesis
    by (simp add: BytesToGiB_def sint_sbintrunc' signed_take_bit_int_eq_self)
qed

lemma BytesToGiB_small:
  assumes "- (2 ^ 30) < sint x" "sint x < 2 ^ 30"
  shows "BytesToGiB x = 0"
proof -
  have "\<bar>sint x\<bar> < 2 ^ 30" using assms by simp
  then have "\<bar>sint x\<bar> div 2 ^ 30 = 0" by simp
  then show ?thesis by (simp add: BytesToGiB_def sdiv_GiB_eq)
qed

text \<open>
  Claim C7. \<open>BytesToGiB\<close> is the integer division of the byte count by \<open>2 ^ 30\<close>,
  truncated towards zero: the result, read as a signed number, is the sign of the input
  times the quotient of its magnitude, which for a size (a non-negative byte count) is
  the plain quotient. It maps 0 and \<open>2 ^ 30 - 1\<close> to 0, \<open>2 ^ 30\<close> to 1 and \<open>2 ^ 31\<close>
  to 2. A size below one gibibyte, and indeed every input of magnitude below one
  gibibyte, gives 0; the function has no error result at all.
\<close>

theorem BytesToGiB_truncates:
  "BytesToGiB 0 = 0 \<and> BytesToGiB (2 ^ 30 - 1) = 0 \<and> BytesToGiB (2 ^ 30) = 1
   \<and> BytesToGiB (2 ^ 31) = 2
   \<and> sint (BytesToGiB x) = sgn (sint x) * (\<bar>sint x\<bar> div 2 ^ 30)
   \<and> (0 \<le> sint x \<longrightarrow> sint (BytesToGiB x) = sint x div 2 ^ 30)
   \<and> (- (2 ^ 30) < sint x \<and> sint x < 2 ^ 30 \<longrightarrow> BytesToGiB x = 0)"
proof -
  have v: "BytesToGiB 0 = 0" "BytesToGiB (2 ^ 30 - 1) = 0" "BytesToGiB (2 ^ 30) = 1"
    "BytesToGiB (2 ^ 31) = 2"
    by (simp_all add: BytesToGiB_def GiB_def signed_divide_int_def)
  have t: "sint (BytesToGiB x) = sgn (sint x) * (\<bar>sint x\<bar> div 2 ^ 30)"
    by (simp add: sint_BytesToGiB sdiv_GiB_eq)
  have f: "0 \<le> sint x \<longrightarrow> sint (BytesToGiB x) = sint x div 2 ^ 30"
    by (auto simp: t sgn_if)
  show ?thesis using v t f BytesToGiB_small by blast
qed

theorem BytesToGiB_truncates_witness:
  "0 \<le> sint (1073741823 :: int64)
   \<and> - (2 ^ 30) < sint (1073741823 :: int64) \<and> sint (1073741823 :: int64) < 2 ^ 30
   \<and> BytesToGiB 1073741823 = 0 \<and> sint (BytesToGiB 1073741823) = 1073741823 div 2 ^ 30"
  using BytesToGiB_truncates [of 1073741823] by simp

subsection \<open>filter\<close>

text \<open>
  Claim C8. \<open>filter\<close> returns true exactly for an object that is a non-nil persistent
  volume whose \<open>CSI\<close> source is present and whose driver is the watcher's provisioner
  name. A nil object, a nil pointer, an object of another type, a volume without \<open>CSI\<close>
  source and a volume of another driver give false.
\<close>

theorem filter_matches_provisioner:
  "(filter_pvw pvw ob \<longleftrightarrow>
      (\<exists>pv csi. ob = PVObj (Some pv) \<and> CSI (Spec pv) = Some csi
         \<and> Driver csi = provisionerName pvw))
   \<and> \<not> filter_pvw pvw NilObj \<and> \<not> filter_pvw pvw (PVObj None) \<and> \<not> filter_pvw pvw OtherObj
   \<and> (CSI (Spec pv') = None \<longrightarrow> \<not> filter_pvw pvw (PVObj (Some pv')))
   \<and> (CSI (Spec pv') = Some csi' \<and> Driver csi' \<noteq> provisionerName pvw
        \<longrightarrow> \<not> filter_pvw pvw (PVObj (Some pv')))"
  by (cases ob) (auto simp: filter_pvw_def split: option.splits)

theorem filter_matches_provisioner_witness:
  "filter_pvw watcher0 (PVObj (Some (pv0 [] ''Bound'')))
   \<and> CSI (Spec (pv0 [] ''Bound'')) = Some (csi0 [])
   \<and> CSI (Spec ((pv0 [] ''Bound'')\<lparr>Spec := (Spec (pv0 [] ''Bound''))\<lparr>CSI := None\<rparr>\<rparr>)) = None
   \<and> \<not> filter_pvw watcher0
         (PVObj (Some ((pv0 [] ''Bound'')\<lparr>Spec := (Spec (pv0 [] ''Bound''))\<lparr>CSI := None\<rparr>\<rparr>)))
   \<and> Driver (csi0 []) \<noteq> provisionerName (watcher0\<lparr>provisionerName := ''other''\<rparr>)
   \<and> \<not> filter_pvw (watcher0\<lparr>provisionerName := ''other''\<rparr>) (PVObj (Some (pv0 [] ''Bound'')))"
  using
    filter_matches_provisioner [of watcher0 "PVObj (Some (pv0 [] ''Bound''))"
      "(pv0 [] ''Bound'')\<lparr>Spec := (Spec (pv0 [] ''Bound''))\<lparr>CSI := None\<rparr>\<rparr>" "csi0 []"]
    filter_matches_provisioner [of "watcher0\<lparr>provisionerName := ''other''\<rparr>" NilObj
      "pv0 [] ''Bound''" "csi0 []"]
  by (simp add: pv0_def csi0_def watcher0_def)

subsection \<open>The string functions\<close>

lemma dropSpaces_skip: "dropSpaces runes (length r) (r @ rest) = dropSpaces runes 0 rest"
proof (induction r)
  case Nil
  show ?case by (cases rest) simp_all
next
  case (Cons c r)
  then show ?case by simp
qed

lemma leadingSpace_rune:
  "r \<in> set spaceRunes \<Longrightarrow> leadingSpace spaceRunes (r @ rest) = length r"
  unfolding spaceRunes_def leadingSpace_def
  by (simp only: set_simps insert_iff empty_iff, elim disjE) simp_all

lemma spaceRunes_nonempty: "r \<in> set spaceRunes \<Longrightarrow> r \<noteq> []"
  unfolding spaceRunes_def by auto

lemma dropSpaces_rune:
  assumes "r \<in> set spaceRunes"
  shows "dropSpaces spaceRunes 0 (r @ rest) = dropSpaces spaceRunes 0 rest"
proof (cases r)
  case Nil
  with assms show ?thesis using spaceRunes_nonempty by blast
next
  case (Cons c cs)
  have "leadingSpace spaceRunes (c # cs @ rest) = Suc (length cs)"
    using leadingSpace_rune [OF assms, of rest] Cons by simp
  then show ?thesis
    using Cons dropSpaces_skip [of spaceRunes cs rest] by simp
qed

lemma dropSpaces_white:
  "set rs \<subseteq> set spaceRunes \<Longrightarrow> dropSpaces spaceRunes 0 (concat rs) = []"
  by (induction rs) (simp_all add: dropSpaces_rune)

text \<open>A string made of white-space runes only, the empty string among them, trims to nothing.\<close>

lemma TrimSpace_white: "set rs \<subseteq> set spaceRunes \<Longrightarrow> TrimSpace (concat rs) = []"
  by (simp add: TrimSpace_def dropSpaces_white)

lemma TrimSpace_a_b: "TrimSpace ''a,b'' = ''a,b''"
  by (simp add: TrimSpace_def spaceRunes_def leadingSpace_def)

lemma ToLower_ClusterIDLabel: "ToLower ClusterIDLabel = ''clusterid''"
  by code_simp

subsection \<open>getTags\<close>

lemma getTags_eq:
  assumes "CSI (Spec pv) = Some csi" "ClaimRef (Spec pv) = Some claimRef"
  shows "getTags pvw (Some pv) =
     Inr (index (VolumeAttributes csi) ''volumeCRN'',
          (if TrimSpace (index (VolumeAttributes csi) ''tags'') = [] then []
           else Split (TrimSpace (index (VolumeAttributes csi) ''tags'')) (CHR '',''))
          @ [''clusterID:'' @ index (VolumeAttributes csi) ''clusterID'',
             ''reclaimpolicy:'' @ PersistentVolumeReclaimPolicy (Spec pv),
             ''storageclass:'' @ StorageClassName (Spec pv),
             ''namespace:'' @ Namespace claimRef,
             ''pvc:'' @ Name claimRef,
             ''pv:'' @ ObjectMeta_Name pv,
             ''provisioner:'' @ provisionerName pvw])"
  using assms by (simp add: getTags_def Let_def label_defs)

lemma getTags_panics:
  "(\<exists>p. getTags pvw pvp = Inl p) \<longleftrightarrow>
     (case pvp of None \<Rightarrow> True
      | Some pv \<Rightarrow> CSI (Spec pv) = None \<or> ClaimRef (Spec pv) = None)"
  by (auto simp: getTags_def Let_def split: option.splits)

text \<open>
  Claim C6. For a persistent volume with \<open>CSI\<close> source and claim reference (without
  them \<open>getTags\<close> panics), \<open>getTags\<close> returns the \<open>volumeCRN\<close> attribute and the list
  of the user tags followed by exactly seven derived tags in the order \<open>clusterID:\<close>,
  \<open>reclaimpolicy:\<close>, \<open>storageclass:\<close>, \<open>namespace:\<close>, \<open>pvc:\<close>, \<open>pv:\<close>,
  \<open>provisioner:\<close>. The user tags are the pieces between the commas of the trimmed
  \<open>tags\<close> attribute, and none when the trimmed attribute is empty. With the attribute
  \<open>a,b\<close> the list is \<open>a\<close>, \<open>b\<close> and the seven derived tags; with an attribute that is
  empty or made of white space only the list is the seven derived tags, with no empty
  entry in front.
\<close>

theorem getTags_user_then_derived:
  assumes "CSI (Spec pv) = Some csi" "ClaimRef (Spec pv) = Some claimRef"
  shows
    "let attrs = VolumeAttributes csi;
         trimmed = TrimSpace (index attrs ''tags'');
         derived = [''clusterID:'' @ index attrs ''clusterID'',
                    ''reclaimpolicy:'' @ PersistentVolumeReclaimPolicy (Spec pv),
                    ''storageclass:'' @ StorageClassName (Spec pv),
                    ''namespace:'' @ Namespace claimRef,
                    ''pvc:'' @ Name claimRef,
                    ''pv:'' @ ObjectMeta_Name pv,
                    ''provisioner:'' @ provisionerName pvw]
     in getTags pvw (Some pv) =
          Inr (index attrs ''volumeCRN'',
               (if trimmed = [] then [] else Split trimmed (CHR '','')) @ derived)
        \<and> (index attrs ''tags'' = ''a,b'' \<longrightarrow>
             getTags pvw (Some pv) = Inr (index attrs ''volumeCRN'', [''a'', ''b''] @ derived))
        \<and> ((\<exists>rs. set rs \<subseteq> set spaceRunes \<and> index attrs ''tags'' = concat rs) \<longrightarrow>
             getTags pvw (Some pv) = Inr (index attrs ''volumeCRN'', derived))"
proof -
  have "TrimSpace (index (VolumeAttributes csi) ''tags'') = []"
    if "set rs \<subseteq> set spaceRunes" "index (VolumeAttributes csi) ''tags'' = concat rs" for rs
    using that by (simp add: TrimSpace_white)
  then show ?thesis
    unfolding Let_def getTags_eq [OF assms]
    by (auto simp: TrimSpace_a_b)
qed

theorem getTags_user_then_derived_witness:
  "CSI (Spec (pv0 ''a,b'' ''Bound'')) = Some (csi0 ''a,b'')
   \<and> ClaimRef (Spec (pv0 ''a,b'' ''Bound'')) = Some claim0
   \<and> index (VolumeAttributes (csi0 ''a,b'')) ''tags'' = ''a,b''
   \<and> getTags watcher0 (Some (pv0 ''a,b'' ''Bound'')) =
       Inr (''crn:1'',
            [''a'', ''b'', ''clusterID:c1'', ''reclaimpolicy:Delete'', ''storageclass:gold'',
             ''namespace:default'', ''pvc:data'', ''pv:pvc-123'',
             ''provisioner:vpc.block.csi.ibm.io''])"
proof -
  have c: "CSI (Spec (pv0 ''a,b'' ''Bound'')) = Some (csi0 ''a,b'')"
    "ClaimRef (Spec (pv0 ''a,b'' ''Bound'')) = Some claim0"
    by (simp_all add: pv0_def)
  have t: "index (VolumeAttributes (csi0 ''a,b'')) ''tags'' = ''a,b''"
    by (simp add: csi0_def index_def)
  have v: "index (VolumeAttributes (csi0 ''a,b'')) ''volumeCRN'' = ''crn:1''"
    "index (VolumeAttributes (csi0 ''a,b'')) ''clusterID'' = ''c1''"
    "PersistentVolumeReclaimPolicy (Spec (pv0 ''a,b'' ''Bound'')) = ''Delete''"
    "StorageClassName (Spec (pv0 ''a,b'' ''Bound'')) = ''gold''"
    "Namespace claim0 = ''default''" "Name claim0 = ''data''"
    "ObjectMeta_Name (pv0 ''a,b'' ''Bound'') = ''pvc-123''"
    "provisionerName watcher0 = ''vpc.block.csi.ibm.io''"
    by (simp_all add: pv0_def csi0_def claim0_def watcher0_def index_def)
  from getTags_user_then_derived [OF c, of watcher0] t
  have "getTags watcher0 (Some (pv0 ''a,b'' ''Bound'')) =
      Inr (index (VolumeAttributes (csi0 ''a,b'')) ''volumeCRN'',
           [''a'', ''b''] @
           [''clusterID:'' @ index (VolumeAttributes (csi0 ''a,b'')) ''clusterID'',
            ''reclaimpolicy:'' @ PersistentVolumeReclaimPolicy (Spec (pv0 ''a,b'' ''Bound'')),
            ''storageclass:'' @ StorageClassName (Spec (pv0 ''a,b'' ''Bound'')),
            ''namespace:'' @ Namespace claim0,
            ''pvc:'' @ Name claim0,
            ''pv:'' @ ObjectMeta_Name (pv0 ''a,b'' ''Bound''),
            ''provisioner:'' @ provisionerName watcher0])"
    unfolding Let_def by blast
  then show ?thesis using c t by (simp add: v)
qed

subsection \<open>getVolumeFromPV\<close>

text \<open>The descriptor of a persistent volume with \<open>CSI\<close> source, in both cases.\<close>

lemma getVolumeFromPV_eq:
  assumes "CSI (Spec pv) = Some csi" "getTags pvw (Some pv) = Inr (crn, tags)"
  shows "getVolumeFromPV pvw vtm (Some pv) =
     Inr (if Status_Phase pv = VolumeReleased
          then \<lparr>VolumeID = VolumeHandle csi, Provider = VPCBlockProviderType pvw,
                VolumeType = index vtm (Driver csi), CRN = crn,
                Attributes = [''clusterid'' \<mapsto> index (VolumeAttributes csi) ''clusterID'',
                              ''status'' \<mapsto> ''deleted''],
                Tags = [], Volume_Capacity = None, Iops = None\<rparr>
          else \<lparr>VolumeID = VolumeHandle csi, Provider = VPCBlockProviderType pvw,
                VolumeType = index vtm (Driver csi), CRN = crn,
                Attributes = [''clusterid'' \<mapsto> index (VolumeAttributes csi) ''clusterID'',
                              ''status'' \<mapsto> ''created''],
                Tags = tags, Volume_Capacity = Some (BytesToGiB (storageValue pv)),
                Iops = Some (index (VolumeAttributes csi) ''iops'')\<rparr>)"
  using assms
  by (simp add: getVolumeFromPV_def Let_def ToLower_ClusterIDLabel)
     (simp add: label_defs)

lemma getVolumeFromPV_panics:
  "getVolumeFromPV pvw vtm pvp = Inl p \<longleftrightarrow> getTags pvw pvp = Inl p"
  by (cases p)
    (auto simp: getVolumeFromPV_def getTags_def Let_def split: option.splits sum.splits)

lemma getVolumeFromPV_returns:
  assumes "CSI (Spec pv) = Some csi" "ClaimRef (Spec pv) = Some claimRef"
  shows "\<exists>volume. getVolumeFromPV pvw vtm (Some pv) = Inr volume"
proof -
  from getTags_eq [OF assms] obtain crn tags where "getTags pvw (Some pv) = Inr (crn, tags)"
    by blast
  from getVolumeFromPV_eq [OF assms(1) this] show ?thesis by blast
qed

text \<open>
  Claim C4. For a persistent volume in phase \<open>Released\<close>, \<open>getVolumeFromPV\<close> either
  panics, which it does exactly when the \<open>CSI\<close> source or the claim reference is nil, or
  builds a descriptor whose \<open>status\<close> attribute is \<open>deleted\<close>, whose tag list is empty
  (nil) and whose capacity and IOPS are nil.
\<close>

theorem released_tombstone:
  assumes "Status_Phase pv = VolumeReleased"
  shows "(getVolumeFromPV pvw vtm (Some pv) = Inl NilPointerDereference
            \<and> (CSI (Spec pv) = None \<or> ClaimRef (Spec pv) = None))
         \<or> (\<exists>volume. getVolumeFromPV pvw vtm (Some pv) = Inr volume
              \<and> CSI (Spec pv) \<noteq> None \<and> ClaimRef (Spec pv) \<noteq> None
              \<and> Attributes volume VolumeStatus = Some VolumeStatusDeleted
              \<and> Tags volume = [] \<and> Volume_Capacity volume = None \<and> Iops volume = None)"
proof (cases "CSI (Spec pv) = None \<or> ClaimRef (Spec pv) = None")
  case True
  then have "\<exists>p. getTags pvw (Some pv) = Inl p"
    by (simp add: getTags_panics)
  then obtain p where "getTags pvw (Some pv) = Inl p" ..
  then have "getTags pvw (Some pv) = Inl NilPointerDereference"
    by (cases p) simp
  then show ?thesis using True by (simp add: getVolumeFromPV_panics)
next
  case False
  then obtain csi claimRef where
    c: "CSI (Spec pv) = Some csi" "ClaimRef (Spec pv) = Some claimRef"
    by auto
  from getTags_eq [OF c] obtain crn tags where "getTags pvw (Some pv) = Inr (crn, tags)"
    by blast
  from getVolumeFromPV_eq [OF c(1) this] assms c show ?thesis
    by (simp add: label_defs)
qed

theorem released_tombstone_witness:
  "Status_Phase (pv0 ''a,b'' ''Released'') = VolumeReleased
   \<and> map_sum id (\<lambda>volume. (Attributes volume ''status'', Tags volume,
                             Volume_Capacity volume, Iops volume))
        (getVolumeFromPV watcher0 Map.empty (Some (pv0 ''a,b'' ''Released'')))
      = Inr (Some ''deleted'', [], None, None)"
  using released_tombstone [of "pv0 ''a,b'' ''Released''" watcher0 Map.empty]
  by (auto simp: pv0_def label_defs)

text \<open>
  Claim C5, as stated, fails: the attribute map is set to the cluster id under the key
  \<open>clusterid\<close> before the phase is looked at, so the descriptor of a \<open>Released\<close>
  volume has a \<open>clusterid\<close> entry beside \<open>status\<close>.
\<close>

theorem released_descriptor_has_clusterid:
  "Status_Phase (pv0 [] ''Released'') = VolumeReleased
   \<and> map_sum id (\<lambda>volume. Attributes volume ''clusterid'')
        (getVolumeFromPV watcher0 Map.empty (Some (pv0 [] ''Released'')))
      = Inr (Some ''c1'')"
proof -
  have c: "CSI (Spec (pv0 [] ''Released'')) = Some (csi0 [])"
    "ClaimRef (Spec (pv0 [] ''Released'')) = Some claim0"
    by (simp_all add: pv0_def)
  from getTags_eq [OF c] obtain crn tags where
    "getTags watcher0 (Some (pv0 [] ''Released'')) = Inr (crn, tags)" by blast
  from getVolumeFromPV_eq [OF c(1) this, of Map.empty] show ?thesis
    by (simp add: pv0_def csi0_def label_defs index_def)
qed

text \<open>
  Claim C5, amended. For a persistent volume with \<open>CSI\<close> source and claim reference,
  the descriptor's attribute map has exactly two entries in both cases: the
  \<open>clusterID\<close> volume attribute under the lower-cased key \<open>clusterid\<close>, and \<open>status\<close>,
  which is \<open>deleted\<close> for a volume in phase \<open>Released\<close> and \<open>created\<close> otherwise.
\<close>

theorem clusterid_attached_in_both_cases:
  assumes "CSI (Spec pv) = Some csi" "ClaimRef (Spec pv) = Some claimRef"
  shows "\<exists>volume. getVolumeFromPV pvw vtm (Some pv) = Inr volume
           \<and> Attributes volume =
               [ToLower ClusterIDLabel \<mapsto> index (VolumeAttributes csi) ClusterIDLabel,
                VolumeStatus \<mapsto> (if Status_Phase pv = VolumeReleased
                                  then VolumeStatusDeleted else VolumeStatusCreated)]
           \<and> ToLower ClusterIDLabel = ''clusterid''"
proof -
  from getTags_eq [OF assms] obtain crn tags where "getTags pvw (Some pv) = Inr (crn, tags)"
    by blast
  from getVolumeFromPV_eq [OF assms(1) this] show ?thesis
    by (simp add: ToLower_ClusterIDLabel) (simp add: label_defs)
qed

theorem clusterid_attached_in_both_cases_witness:
  "CSI (Spec (pv0 [] ''Released'')) = Some (csi0 [])
   \<and> ClaimRef (Spec (pv0 [] ''Released'')) = Some claim0
   \<and> (\<exists>volume. getVolumeFromPV watcher0 Map.empty (Some (pv0 [] ''Released'')) = Inr volume
         \<and> Attributes volume = [''clusterid'' \<mapsto> ''c1'', ''status'' \<mapsto> ''deleted''])"
proof -
  have c: "CSI (Spec (pv0 [] ''Released'')) = Some (csi0 [])"
    "ClaimRef (Spec (pv0 [] ''Released'')) = Some claim0"
    by (simp_all add: pv0_def)
  have v: "index (VolumeAttributes (csi0 [])) ClusterIDLabel = ''c1''"
    "Status_Phase (pv0 [] ''Released'') = VolumeReleased"
    by (simp_all add: pv0_def csi0_def label_defs index_def)
  from clusterid_attached_in_both_cases [OF c, of watcher0 Map.empty]
  show ?thesis
    using c by (simp add: v ToLower_ClusterIDLabel VolumeStatus_def VolumeStatusDeleted_def)
qed

subsection \<open>updateVolume\<close>

lemma statusChange_nil: "statusChange NilObj ob = Inr (Some ([], []))"
  by (simp add: statusChange_def)

lemma statusChange_pv:
  assumes "CSI (Spec oldpv) = Some oldcsi" "CSI (Spec newpv) = Some newcsi"
  shows "statusChange (PVObj (Some oldpv)) (PVObj (Some newpv)) =
     Inr (if Status_Phase newpv = Status_Phase oldpv
             \<and> storageValue oldpv = storageValue newpv
             \<and> index (VolumeAttributes oldcsi) IOPSLabel = index (VolumeAttributes newcsi) IOPSLabel
          then None else Some (Status_Phase oldpv, Status_Phase newpv))"
  using assms by (simp add: statusChange_def Let_def)

lemma statusChange_statuses:
  "statusChange (PVObj (Some oldpv)) (PVObj (Some newpv)) = Inr (Some (oldStatus, newStatus))
   \<Longrightarrow> oldStatus = Status_Phase oldpv \<and> newStatus = Status_Phase newpv"
  by (auto simp: statusChange_def Let_def split: option.splits if_splits)

text \<open>What the task does once it has the session and the descriptor.\<close>

lemma updateVolume_protocol:
  assumes "provided = Some (IksVpcSession f g)"
    and "statusChange oldobj ob = Inr (Some (oldStatus, newStatus))"
    and "getVolumeFromPV pvw vtm (asPV ob) = Inr volume"
  shows "updateVolume pvw vtm provided oldobj ob =
     (Exited,
      [GetProviderSession, IksUpdateVolume volume]
      @ (case f volume of
           Some err \<Rightarrow> [RecorderEvent (asPV ob) EventTypeWarning VolumeUpdateEventReason err]
         | None \<Rightarrow> [])
      @ (if newStatus \<noteq> oldStatus \<and> newStatus = VolumeBound
         then [VpcUpdateVolume volume,
               (case g volume of
                  Some err \<Rightarrow> RecorderEvent (asPV ob) EventTypeWarning VolumeUpdateEventReason err
                | None \<Rightarrow> RecorderEvent (asPV ob) EventTypeNormal VolumeUpdateEventReason
                            VolumeUpdateEventSuccess)]
         else []))"
  using assms by (simp add: updateVolume_def Let_def split: option.splits)

text \<open>Every other run of the task makes no provider call and records no event.\<close>

lemma updateVolume_no_protocol:
  assumes "provided = None \<or> provided = Some OtherSession
           \<or> (\<exists>p. statusChange oldobj ob = Inl p) \<or> statusChange oldobj ob = Inr None
           \<or> (\<exists>p. getVolumeFromPV pvw vtm (asPV ob) = Inl p)"
  shows "snd (updateVolume pvw vtm provided oldobj ob) = []
         \<or> snd (updateVolume pvw vtm provided oldobj ob) = [GetProviderSession]"
  using assms
  by (auto simp: updateVolume_def Let_def split: option.splits sum.splits session.splits)

lemma updateVolume_metadata_called:
  assumes "IksUpdateVolume volume \<in> set (snd (updateVolume pvw vtm provided oldobj ob))"
  shows "\<exists>f g oldStatus newStatus. provided = Some (IksVpcSession f g)
           \<and> statusChange oldobj ob = Inr (Some (oldStatus, newStatus))
           \<and> getVolumeFromPV pvw vtm (asPV ob) = Inr volume"
  using assms
  by (auto simp: updateVolume_def Let_def split: option.splits sum.splits session.splits if_splits)

lemma calls_of_protocol:
  "metadataCalls ([GetProviderSession, IksUpdateVolume volume] @
      (case r of Some err \<Rightarrow> [RecorderEvent p t1 t2 err] | None \<Rightarrow> []) @
      (if b then [VpcUpdateVolume volume, ev] else [])) = [volume]"
  "tagSyncCalls ([GetProviderSession, IksUpdateVolume volume] @
      (case r of Some err \<Rightarrow> [RecorderEvent p t1 t2 err] | None \<Rightarrow> []) @
      (if b then [VpcUpdateVolume volume, ev] else [])) = (if b then [volume] else [])"
  if "\<And>v. ev \<noteq> IksUpdateVolume v" "\<And>v. ev \<noteq> VpcUpdateVolume v"
  using that by (cases r; cases ev; simp)+

lemma updateVolume_calls:
  assumes "provided = Some (IksVpcSession f g)"
    and "statusChange oldobj ob = Inr (Some (oldStatus, newStatus))"
    and "getVolumeFromPV pvw vtm (asPV ob) = Inr volume"
  shows "metadataCalls (snd (updateVolume pvw vtm provided oldobj ob)) = [volume]"
    and "tagSyncCalls (snd (updateVolume pvw vtm provided oldobj ob)) =
           (if newStatus \<noteq> oldStatus \<and> newStatus = VolumeBound then [volume] else [])"
  unfolding updateVolume_protocol [OF assms]
  by (simp_all add: calls_of_protocol split: option.splits)

lemma updateVolume_no_calls:
  assumes "provided = None \<or> provided = Some OtherSession
           \<or> (\<exists>p. statusChange oldobj ob = Inl p) \<or> statusChange oldobj ob = Inr None
           \<or> (\<exists>p. getVolumeFromPV pvw vtm (asPV ob) = Inl p)"
  shows "metadataCalls (snd (updateVolume pvw vtm provided oldobj ob)) = []"
    and "tagSyncCalls (snd (updateVolume pvw vtm provided oldobj ob)) = []"
  using updateVolume_no_protocol [OF assms] by auto

text \<open>The sample volume gets a descriptor, whatever its tags and phase.\<close>

lemma pv0_fields:
  "CSI (Spec (pv0 usertags phase)) = Some (csi0 usertags)"
  "ClaimRef (Spec (pv0 usertags phase)) = Some claim0"
  "Status_Phase (pv0 usertags phase) = phase"
  "storageValue (pv0 usertags phase) = 10737418240"
  "index (VolumeAttributes (csi0 usertags)) IOPSLabel = ''3000''"
  by (simp_all add: pv0_def csi0_def storageValue_def index_def label_defs)

lemma pv0_descriptor:
  "\<exists>volume. getVolumeFromPV pvw vtm (asPV (PVObj (Some (pv0 usertags phase)))) = Inr volume"
  using getVolumeFromPV_returns [OF pv0_fields(1,2)] by simp

text \<open>
  Claim C2. When the old object is a persistent volume and the new one has the same
  phase, the same capacity value and the same \<open>iops\<close> attribute, the task does nothing
  to the outside: it does not ask for a provider session and makes no provider call,
  whatever session the provider would have given. The attribute is read from the \<open>CSI\<close>
  source; with that source present the task ends at the return of the skip. (Two
  volumes without the source have no attribute to compare: reading it panics, and the
  task ends in its recovery, also before it asks for a session.)
\<close>

theorem unchanged_event_is_skipped:
  assumes "Status_Phase newpv = Status_Phase oldpv"
    and "storageValue oldpv = storageValue newpv"
    and "map_option (\<lambda>csi. index (VolumeAttributes csi) IOPSLabel) (CSI (Spec oldpv))
         = map_option (\<lambda>csi. index (VolumeAttributes csi) IOPSLabel) (CSI (Spec newpv))"
  shows "snd (updateVolume pvw vtm provided (PVObj (Some oldpv)) (PVObj (Some newpv))) = []
       \<and> metadataCalls
           (snd (updateVolume pvw vtm provided (PVObj (Some oldpv)) (PVObj (Some newpv)))) = []
       \<and> tagSyncCalls
           (snd (updateVolume pvw vtm provided (PVObj (Some oldpv)) (PVObj (Some newpv)))) = []
       \<and> (CSI (Spec oldpv) \<noteq> None \<longrightarrow>
            updateVolume pvw vtm provided (PVObj (Some oldpv)) (PVObj (Some newpv))
              = (Skipped, []))"
proof (cases "CSI (Spec oldpv)")
  case None
  with assms(3) have "CSI (Spec newpv) = None" by simp
  then have "statusChange (PVObj (Some oldpv)) (PVObj (Some newpv)) = Inl NilPointerDereference"
    by (simp add: statusChange_def)
  then show ?thesis using None by (simp add: updateVolume_def)
next
  case (Some oldcsi)
  with assms(3) obtain newcsi where n: "CSI (Spec newpv) = Some newcsi"
    and "index (VolumeAttributes oldcsi) IOPSLabel = index (VolumeAttributes newcsi) IOPSLabel"
    by (cases "CSI (Spec newpv)") auto
  with statusChange_pv [OF Some n] assms(1,2)
  have "statusChange (PVObj (Some oldpv)) (PVObj (Some newpv)) = Inr None" by simp
  then show ?thesis by (simp add: updateVolume_def)
qed

theorem unchanged_event_is_skipped_witness:
  "Status_Phase (pv0 ''b'' ''Bound'') = Status_Phase (pv0 ''a'' ''Bound'')
   \<and> storageValue (pv0 ''a'' ''Bound'') = storageValue (pv0 ''b'' ''Bound'')
   \<and> map_option (\<lambda>csi. index (VolumeAttributes csi) IOPSLabel) (CSI (Spec (pv0 ''a'' ''Bound'')))
     = map_option (\<lambda>csi. index (VolumeAttributes csi) IOPSLabel) (CSI (Spec (pv0 ''b'' ''Bound'')))
   \<and> CSI (Spec (pv0 ''a'' ''Bound'')) \<noteq> None
   \<and> updateVolume watcher0 Map.empty (Some (session0 None None))
        (PVObj (Some (pv0 ''a'' ''Bound''))) (PVObj (Some (pv0 ''b'' ''Bound''))) = (Skipped, [])"
  using unchanged_event_is_skipped [of "pv0 ''b'' ''Bound''" "pv0 ''a'' ''Bound''"
      watcher0 Map.empty "Some (session0 None None)"]
  by (simp add: pv0_fields)

text \<open>
  Claim C3. When the old object is nil, the comparison is not made: whatever the new
  object is, the task does not end at the skip and goes on to ask for the provider
  session; and once it has an IKS-VPC session and the descriptor it makes the metadata
  update, once.
\<close>

theorem first_observation_is_processed:
  "statusChange NilObj ob = Inr (Some ([], []))
   \<and> fst (updateVolume pvw vtm provided NilObj ob) \<noteq> Skipped
   \<and> (\<exists>rest. snd (updateVolume pvw vtm provided NilObj ob) = GetProviderSession # rest)
   \<and> (provided = Some (IksVpcSession f g) \<and> getVolumeFromPV pvw vtm (asPV ob) = Inr volume
        \<longrightarrow> metadataCalls (snd (updateVolume pvw vtm provided NilObj ob)) = [volume])"
proof -
  have a: "fst (updateVolume pvw vtm provided NilObj ob) \<noteq> Skipped
      \<and> (\<exists>rest. snd (updateVolume pvw vtm provided NilObj ob) = GetProviderSession # rest)"
    by (simp add: updateVolume_def statusChange_nil Let_def
          split: option.splits sum.splits session.splits)
  have b: "metadataCalls (snd (updateVolume pvw vtm provided NilObj ob)) = [volume]"
    if "provided = Some (IksVpcSession f g)" "getVolumeFromPV pvw vtm (asPV ob) = Inr volume"
    using updateVolume_calls(1) [OF that(1) statusChange_nil that(2)] .
  show ?thesis using a b statusChange_nil by blast
qed

theorem first_observation_is_processed_witness:
  "\<exists>volume. getVolumeFromPV watcher0 Map.empty (asPV (PVObj (Some (pv0 [] ''Pending''))))
       = Inr volume
     \<and> metadataCalls (snd (updateVolume watcher0 Map.empty (Some (session0 None None))
         NilObj (PVObj (Some (pv0 [] ''Pending''))))) = [volume]"
proof -
  obtain volume where
    v: "getVolumeFromPV watcher0 Map.empty (asPV (PVObj (Some (pv0 [] ''Pending''))))
          = Inr volume"
    using pv0_descriptor [of watcher0 Map.empty "[]" "''Pending''"] by blast
  from first_observation_is_processed [of "PVObj (Some (pv0 [] ''Pending''))" watcher0
      Map.empty "Some (session0 None None)" "\<lambda>volume. None" "\<lambda>volume. None" volume] v
  show ?thesis by (simp add: session0_def)
qed

text \<open>
  Claim C10. When the old object is nil, the task never makes the tag-synchronization
  call, whatever the new object and its phase, \<open>Bound\<close> included, and whatever the
  provider session: \<open>oldStatus\<close> and \<open>newStatus\<close> both keep the zero value, so the
  condition of the call is false.
\<close>

theorem no_tag_sync_on_first_observation:
  "statusChange NilObj ob = Inr (Some ([], []))
   \<and> tagSyncCalls (snd (updateVolume pvw vtm provided NilObj ob)) = []"
proof (cases "\<exists>f g volume. provided = Some (IksVpcSession f g)
                \<and> getVolumeFromPV pvw vtm (asPV ob) = Inr volume")
  case True
  then obtain f g volume where "provided = Some (IksVpcSession f g)"
    "getVolumeFromPV pvw vtm (asPV ob) = Inr volume" by blast
  from updateVolume_calls(2) [OF this(1) statusChange_nil this(2)] show ?thesis
    by (simp add: statusChange_nil)
next
  case False
  then have "provided = None \<or> provided = Some OtherSession
      \<or> (\<exists>p. getVolumeFromPV pvw vtm (asPV ob) = Inl p)"
    by (metis not_Some_eq session.exhaust sum.exhaust_sel)
  then have "tagSyncCalls (snd (updateVolume pvw vtm provided NilObj ob)) = []"
    by (intro updateVolume_no_calls(2)) blast
  then show ?thesis by (simp add: statusChange_nil)
qed

theorem no_tag_sync_on_first_observation_witness:
  "Status_Phase (pv0 [] ''Bound'') = VolumeBound
   \<and> tagSyncCalls (snd (updateVolume watcher0 Map.empty (Some (session0 None None))
        NilObj (PVObj (Some (pv0 [] ''Bound''))))) = []"
  using no_tag_sync_on_first_observation [of "PVObj (Some (pv0 [] ''Bound''))" watcher0
      Map.empty "Some (session0 None None)"]
  by (simp add: pv0_fields VolumeBound_def)

text \<open>
  Claim C1, as stated, fails: the tag-synchronization call needs a provider session.
  With a volume going from \<open>Pending\<close> to \<open>Bound\<close> and a provider that returns no
  session, the task makes no tag-synchronization call.
\<close>

theorem no_session_no_tag_sync:
  "Status_Phase (pv0 [] ''Pending'') \<noteq> VolumeBound
   \<and> Status_Phase (pv0 [] ''Bound'') = VolumeBound
   \<and> tagSyncCalls (snd (updateVolume watcher0 Map.empty None
        (PVObj (Some (pv0 [] ''Pending''))) (PVObj (Some (pv0 [] ''Bound''))))) = []"
proof -
  have "tagSyncCalls (snd (updateVolume watcher0 Map.empty None
        (PVObj (Some (pv0 [] ''Pending''))) (PVObj (Some (pv0 [] ''Bound''))))) = []"
    by (rule updateVolume_no_calls(2)) simp
  then show ?thesis by (simp add: pv0_fields VolumeBound_def)
qed

text \<open>
  Claim C1, amended. For an event whose old and new objects are persistent volumes:
  the tag-synchronization call is made only if the old phase is not \<open>Bound\<close> and the
  new phase is \<open>Bound\<close>, so never for \<open>Bound\<close> to \<open>Bound\<close>, \<open>Bound\<close> to
  \<open>Released\<close> or \<open>Pending\<close> to \<open>Pending\<close>; in a task that gets as far as the
  metadata update it is made if and only if that holds; a task gets that far, and then
  makes each of the two calls once, when the provider gives an IKS-VPC session and both
  volumes have their \<open>CSI\<close> source and the new one its claim reference; and with no
  session, or a session of another type, the call is not made.
\<close>

theorem tag_sync_gate:
  assumes "done = snd (updateVolume pvw vtm provided (PVObj (Some oldpv)) (PVObj (Some newpv)))"
  shows "(tagSyncCalls done \<noteq> [] \<longrightarrow>
            Status_Phase oldpv \<noteq> VolumeBound \<and> Status_Phase newpv = VolumeBound)
       \<and> (metadataCalls done \<noteq> [] \<longrightarrow>
            (tagSyncCalls done \<noteq> [] \<longleftrightarrow>
               Status_Phase oldpv \<noteq> VolumeBound \<and> Status_Phase newpv = VolumeBound))
       \<and> ((\<exists>f g. provided = Some (IksVpcSession f g))
            \<and> CSI (Spec oldpv) \<noteq> None \<and> CSI (Spec newpv) \<noteq> None
            \<and> ClaimRef (Spec newpv) \<noteq> None
            \<and> Status_Phase oldpv \<noteq> VolumeBound \<and> Status_Phase newpv = VolumeBound
            \<longrightarrow> length (metadataCalls done) = 1 \<and> length (tagSyncCalls done) = 1)
       \<and> (provided = None \<or> provided = Some OtherSession \<longrightarrow> tagSyncCalls done = [])"
proof -
  let ?old = "PVObj (Some oldpv)" and ?new = "PVObj (Some newpv)"
  have run: "metadataCalls done = [volume]
      \<and> tagSyncCalls done =
          (if Status_Phase oldpv \<noteq> VolumeBound \<and> Status_Phase newpv = VolumeBound
           then [volume] else [])"
    if "provided = Some (IksVpcSession f g)"
      "statusChange ?old ?new = Inr (Some (oldStatus, newStatus))"
      "getVolumeFromPV pvw vtm (asPV ?new) = Inr volume"
    for f g oldStatus newStatus volume
    using updateVolume_calls [OF that] statusChange_statuses [OF that(2)] assms by auto
  have none: "metadataCalls done = [] \<and> tagSyncCalls done = []"
    if "\<not> (\<exists>f g oldStatus newStatus volume. provided = Some (IksVpcSession f g)
          \<and> statusChange ?old ?new = Inr (Some (oldStatus, newStatus))
          \<and> getVolumeFromPV pvw vtm (asPV ?new) = Inr volume)"
  proof -
    have "provided = None \<or> provided = Some OtherSession
        \<or> (\<exists>p. statusChange ?old ?new = Inl p) \<or> statusChange ?old ?new = Inr None
        \<or> (\<exists>p. getVolumeFromPV pvw vtm (asPV ?new) = Inl p)"
    proof (cases provided)
      case None
      then show ?thesis by simp
    next
      case (Some s)
      show ?thesis
      proof (cases s)
        case OtherSession
        with Some show ?thesis by simp
      next
        case (IksVpcSession f g)
        show ?thesis
        proof (cases "statusChange ?old ?new")
          case (Inl p)
          then show ?thesis by simp
        next
          case (Inr r)
          show ?thesis
          proof (cases r)
            case None
            with Inr show ?thesis by simp
          next
            case (Some st)
            obtain oldStatus newStatus where "st = (oldStatus, newStatus)" by (cases st)
            with that Inr Some IksVpcSession \<open>provided = Some s\<close>
            have "\<nexists>volume. getVolumeFromPV pvw vtm (asPV ?new) = Inr volume" by blast
            then show ?thesis by (cases "getVolumeFromPV pvw vtm (asPV ?new)") auto
          qed
        qed
      qed
    qed
    from updateVolume_no_calls [OF this] assms show ?thesis by simp
  qed
  have only_if: "tagSyncCalls done \<noteq> [] \<longrightarrow>
      Status_Phase oldpv \<noteq> VolumeBound \<and> Status_Phase newpv = VolumeBound"
    using run none by metis
  have iff: "metadataCalls done \<noteq> [] \<longrightarrow>
      (tagSyncCalls done \<noteq> [] \<longleftrightarrow>
         Status_Phase oldpv \<noteq> VolumeBound \<and> Status_Phase newpv = VolumeBound)"
    using run none by (metis list.distinct(1))
  have reached: "length (metadataCalls done) = 1 \<and> length (tagSyncCalls done) = 1"
    if h: "provided = Some (IksVpcSession f g)" "CSI (Spec oldpv) = Some oldcsi"
      "CSI (Spec newpv) = Some newcsi" "ClaimRef (Spec newpv) = Some claimRef"
      "Status_Phase oldpv \<noteq> VolumeBound" "Status_Phase newpv = VolumeBound"
    for f g oldcsi newcsi claimRef
  proof -
    have s: "statusChange ?old ?new = Inr (Some (Status_Phase oldpv, Status_Phase newpv))"
      using statusChange_pv [OF h(2,3)] h(5,6) by auto
    from getVolumeFromPV_returns [OF h(3,4)] obtain volume where
      "getVolumeFromPV pvw vtm (asPV ?new) = Inr volume" by auto
    from run [OF h(1) s this] h(5,6) show ?thesis by simp
  qed
  have no_session: "provided = None \<or> provided = Some OtherSession \<longrightarrow> tagSyncCalls done = []"
    using none by auto
  show ?thesis using only_if iff reached no_session by blast
qed

theorem tag_sync_gate_witness:
  "length (metadataCalls (snd (updateVolume watcher0 Map.empty (Some (session0 None None))
       (PVObj (Some (pv0 [] ''Pending''))) (PVObj (Some (pv0 [] ''Bound'')))))) = 1
   \<and> length (tagSyncCalls (snd (updateVolume watcher0 Map.empty (Some (session0 None None))
       (PVObj (Some (pv0 [] ''Pending''))) (PVObj (Some (pv0 [] ''Bound'')))))) = 1
   \<and> Status_Phase (pv0 [] ''Pending'') \<noteq> VolumeBound
   \<and> Status_Phase (pv0 [] ''Bound'') = VolumeBound"
  using tag_sync_gate [OF refl, of watcher0 Map.empty "Some (session0 None None)"
      "pv0 [] ''Pending''" "pv0 [] ''Bound''"]
  by (simp add: pv0_fields VolumeBound_def session0_def)

text \<open>
  Claim C9. Whenever the task makes the metadata update, what it does is exactly this,
  in this order: it asks for the session; it makes the metadata update, once; if that
  call returns an error it records a \<open>Warning\<close> event on the new volume with the error
  text, and goes on in either case; then, if the new status differs from the old one
  and is \<open>Bound\<close>, it makes the tag-synchronization call, once, and records a
  \<open>Normal\<close> event with the message \<open>Success\<close> if the call returns no error and a
  \<open>Warning\<close> event with the error text if it returns one; and it runs to its last line.
  No call is made a second time.
\<close>

theorem update_protocol_notifications:
  assumes "IksUpdateVolume volume \<in> set (snd (updateVolume pvw vtm provided oldobj ob))"
  shows "\<exists>f g oldStatus newStatus.
           provided = Some (IksVpcSession f g)
         \<and> statusChange oldobj ob = Inr (Some (oldStatus, newStatus))
         \<and> updateVolume pvw vtm provided oldobj ob =
             (Exited,
              [GetProviderSession, IksUpdateVolume volume]
              @ (case f volume of
                   Some err \<Rightarrow>
                     [RecorderEvent (asPV ob) EventTypeWarning VolumeUpdateEventReason err]
                 | None \<Rightarrow> [])
              @ (if newStatus \<noteq> oldStatus \<and> newStatus = VolumeBound
                 then [VpcUpdateVolume volume,
                       (case g volume of
                          Some err \<Rightarrow>
                            RecorderEvent (asPV ob) EventTypeWarning VolumeUpdateEventReason err
                        | None \<Rightarrow>
                            RecorderEvent (asPV ob) EventTypeNormal VolumeUpdateEventReason
                              VolumeUpdateEventSuccess)]
                 else []))
         \<and> metadataCalls (snd (updateVolume pvw vtm provided oldobj ob)) = [volume]
         \<and> tagSyncCalls (snd (updateVolume pvw vtm provided oldobj ob)) =
             (if newStatus \<noteq> oldStatus \<and> newStatus = VolumeBound then [volume] else [])"
proof -
  from updateVolume_metadata_called [OF assms] obtain f g oldStatus newStatus where
    h: "provided = Some (IksVpcSession f g)"
      "statusChange oldobj ob = Inr (Some (oldStatus, newStatus))"
      "getVolumeFromPV pvw vtm (asPV ob) = Inr volume"
    by blast
  from updateVolume_protocol [OF h] updateVolume_calls [OF h] h(1,2)
  show ?thesis by blast
qed

theorem update_protocol_notifications_witness:
  "\<exists>volume.
     IksUpdateVolume volume \<in> set (snd (updateVolume watcher0 Map.empty
         (Some (session0 (Some ''timeout'') None))
         (PVObj (Some (pv0 [] ''Pending''))) (PVObj (Some (pv0 [] ''Bound'')))))
   \<and> updateVolume watcher0 Map.empty (Some (session0 (Some ''timeout'') None))
         (PVObj (Some (pv0 [] ''Pending''))) (PVObj (Some (pv0 [] ''Bound''))) =
       (Exited,
        [GetProviderSession, IksUpdateVolume volume,
         RecorderEvent (Some (pv0 [] ''Bound'')) ''Warning'' ''VolumeMetaDataSaved'' ''timeout'',
         VpcUpdateVolume volume,
         RecorderEvent (Some (pv0 [] ''Bound'')) ''Normal'' ''VolumeMetaDataSaved'' ''Success''])"
proof -
  let ?provided = "Some (session0 (Some ''timeout'') None)"
  let ?old = "PVObj (Some (pv0 [] ''Pending''))" and ?new = "PVObj (Some (pv0 [] ''Bound''))"
  obtain volume where v: "getVolumeFromPV watcher0 Map.empty (asPV ?new) = Inr volume"
    using pv0_descriptor [of watcher0 Map.empty "[]" "''Bound''"] by blast
  have s: "statusChange ?old ?new = Inr (Some (''Pending'', ''Bound''))"
    using statusChange_pv [OF pv0_fields(1) pv0_fields(1), of "[]" "''Pending''" "[]" "''Bound''"]
    by (simp add: pv0_fields)
  have p: "?provided = Some (IksVpcSession (\<lambda>volume. Some ''timeout'') (\<lambda>volume. None))"
    by (simp add: session0_def)
  have m: "IksUpdateVolume volume \<in> set (snd (updateVolume watcher0 Map.empty ?provided ?old ?new))"
    unfolding updateVolume_protocol [OF p s v] by simp
  from update_protocol_notifications [OF m] obtain f g oldStatus newStatus where
    r: "?provided = Some (IksVpcSession f g)"
      "statusChange ?old ?new = Inr (Some (oldStatus, newStatus))"
      "updateVolume watcher0 Map.empty ?provided ?old ?new =
         (Exited,
          [GetProviderSession, IksUpdateVolume volume]
          @ (case f volume of
               Some err \<Rightarrow>
                 [RecorderEvent (asPV ?new) EventTypeWarning VolumeUpdateEventReason err]
             | None \<Rightarrow> [])
          @ (if newStatus \<noteq> oldStatus \<and> newStatus = VolumeBound
             then [VpcUpdateVolume volume,
                   (case g volume of
                      Some err \<Rightarrow>
                        RecorderEvent (asPV ?new) EventTypeWarning VolumeUpdateEventReason err
                    | None \<Rightarrow>
                        RecorderEvent (asPV ?new) EventTypeNormal VolumeUpdateEventReason
                          VolumeUpdateEventSuccess)]
             else []))"
    by blast
  from r(1) have fg: "f = (\<lambda>volume. Some ''timeout'')" "g = (\<lambda>volume. None)"
    by (simp_all add: session0_def)
  from r(2) s have st: "oldStatus = ''Pending''" "newStatus = ''Bound''" by simp_all
  have "updateVolume watcher0 Map.empty ?provided ?old ?new =
       (Exited,
        [GetProviderSession, IksUpdateVolume volume,
         RecorderEvent (Some (pv0 [] ''Bound'')) ''Warning'' ''VolumeMetaDataSaved'' ''timeout'',
         VpcUpdateVolume volume,
         RecorderEvent (Some (pv0 [] ''Bound'')) ''Normal'' ''VolumeMetaDataSaved'' ''Success''])"
    unfolding r(3) fg st by (simp add: label_defs)
  with m show ?thesis by blast
qed

end
